theory Spec2Isabelle
  imports Complex_Main "HOL-Library.Product_Lexorder"
begin

section \<open>The analysis page (frontend/app/analysis/page.tsx)\<close>

subsection \<open>JavaScript numbers\<close>

text \<open>
  A TypeScript \<open>number\<close> is a double: a finite value, one of the two infinities, or
  NaN. A finite double is written as the real number it denotes; doubles are compared
  exactly, so \<open>>=\<close> on finite doubles is \<open>\<ge>\<close> on those reals. The type admits
  every real, the doubles among them.
\<close>

datatype number = NaN | NegInfinity | Num real | PosInfinity

text \<open>\<open>x >= c\<close> for a finite \<open>c\<close>: every comparison with NaN is false.\<close>

fun num_ge :: "number \<Rightarrow> real \<Rightarrow> bool" where
  "num_ge NaN c = False"
| "num_ge NegInfinity c = False"
| "num_ge (Num x) c = (c \<le> x)"
| "num_ge PosInfinity c = True"

text \<open>
  A decimal literal of the source denotes the double nearest to it. The literal \<open>0.7\<close>
  is the double with significand 6305039478318694 and exponent -53, just below 7/10;
  the literal \<open>0.4\<close> is the double with significand 7205759403792794 and exponent
  -54, just above 4/10.
\<close>

definition double_0_7 :: real where
  "double_0_7 = 3152519739159347 / 2 ^ 52"

definition double_0_4 :: real where
  "double_0_4 = 3602879701896397 / 2 ^ 53"

text \<open>
  The finite doubles are the reals \<open>m * 2 ^ e\<close> with an integer significand \<open>m\<close> of
  less than 53 bits and an exponent \<open>e\<close> from -1074 to 971. These are the finite values
  a \<open>number\<close> holds when the program runs.
\<close>

definition is_double :: "real \<Rightarrow> bool" where
  "is_double x \<longleftrightarrow>
     (\<exists>m e :: int. x = real_of_int m * 2 powi e \<and> \<bar>m\<bar> < 2 ^ 53 \<and> - 1074 \<le> e \<and> e \<le> 971)"

subsection \<open>The interfaces \<open>Store\<close> and \<open>AnalysisResult\<close>\<close>






subsection \<open>The declaration of \<open>AnalysisResult\<close> as data\<close>

text \<open>
  To speak about which fields the interface declares, the declaration itself is written
  down as a value: a type expression is \<open>number\<close>, \<open>string\<close>, an array type, or an
  object type listing its properties in the order of the source.
\<close>

datatype ts_type =
  TNumber
  | TString
  | TArray ts_type
  | TObject "(string \<times> ts_type) list"

definition HighPerformer_interface :: ts_type where
  "HighPerformer_interface =
     TObject [(''machine_number'', TNumber),
              (''model_name'', TString),
              (''total_difference'', TNumber)]"

definition AnalysisResult_interface :: ts_type where
  "AnalysisResult_interface =
     TObject [(''store_name'', TString),
              (''high_setting_probability'', TNumber),
              (''confidence_score'', TNumber),
              (''recommended_machines'', TArray TNumber),
              (''analysis_details'',
                 TObject [(''statistical_analysis'',
                             TObject [(''average_game_count'', TNumber),
                                      (''average_difference'', TNumber),
                                      (''positive_machines_count'', TNumber),
                                      (''high_performers'', TArray HighPerformer_interface)]),
                          (''total_machines'', TNumber),
                          (''analysis_date'', TString)])]"

text \<open>
  The fields of a type expression: every property that is not itself an object, with
  the path of property names that leads to it and its declared type. Properties of a
  nested object are listed under the path of that object; an array is one field.
\<close>

fun declared_fields :: "ts_type \<Rightarrow> (string list \<times> ts_type) list" where
  "declared_fields (TObject ps) =
     concat (map (\<lambda>p. case snd p of
                          TObject qs \<Rightarrow> map (\<lambda>f. (fst p # fst f, snd f)) (declared_fields (snd p))
                        | t \<Rightarrow> [([fst p], t)]) ps)"
| "declared_fields TNumber = []"
| "declared_fields TString = []"
| "declared_fields (TArray t) = []"

text \<open>
  The contract the presentation layer consumes, as the data model lists it: the
  probability, the confidence score, the list of recommended machine numbers, the
  embedded statistical summary (average game count, average net difference, count of
  positive machines, high performers) and the total machine count. Each is given with
  the place and type it has in the page.
\<close>

definition contract_fields :: "(string list \<times> ts_type) list" where
  "contract_fields =
     [([''high_setting_probability''], TNumber),
      ([''confidence_score''], TNumber),
      ([''recommended_machines''], TArray TNumber),
      ([''analysis_details'', ''statistical_analysis'', ''average_game_count''], TNumber),
      ([''analysis_details'', ''statistical_analysis'', ''average_difference''], TNumber),
      ([''analysis_details'', ''statistical_analysis'', ''positive_machines_count''], TNumber),
      ([''analysis_details'', ''statistical_analysis'', ''high_performers''],
         TArray HighPerformer_interface),
      ([''analysis_details'', ''total_machines''], TNumber)]"

subsection \<open>The state of the page\<close>








subsection \<open>\<open>analyzeStore\<close>, between its awaits\<close>

text \<open>
  \<^verbatim>\<open>
  59  const analyzeStore = async (storeId: number) => {
  60    setLoading(true);
  61    setError(null);
  62    try {
  63      const response = await fetch(
  64        <API_BASE_URL>/api/v1/slots/analyze/<storeId>,
  65        {
  66          method: "POST",
  67        }
  68      );
  69      if (!response.ok) throw new Error(<analysis failed>);
  70      const data = await response.json();
  71      setAnalysisResult(data);
  72    } catch (err) {
  73      setError(err instanceof Error ? err.message : <generic failure>);
  74    } finally {
  75      setLoading(false);
  76    }
  77  };
  \<close>
  The function is asynchronous: an invocation runs up to the \<open>await\<close> of line 63 and
  suspends; when \<open>fetch\<close> has settled it runs on to the \<open>await\<close> of line 70, or
  through \<open>catch\<close> and \<open>finally\<close> to its end; when \<open>response.json()\<close> has settled
  it runs to its end. Between two of these pieces anything else of the page can run,
  other invocations of \<open>analyzeStore\<close> among it: the click handler (lines 113 to 116)
  calls it with no guard, and no button is disabled while a call is in flight. Each
  piece is a function on the cells of the page. (The one other writer of the cells,
  \<open>fetchStores\<close>, has ended before a store can be clicked: the buttons are rendered
  from the stores it fetched.)
\<close>






subsection \<open>The page with its invocations in flight\<close>









subsection \<open>The colour of a probability\<close>

text \<open>
  \<^verbatim>\<open>
  const getProbabilityColor = (probability: number): string => {
    if (probability >= 0.7) return "text-green-600";
    if (probability >= 0.4) return "text-yellow-600";
    return "text-red-600";
  };
  const getProbabilityBgColor = (probability: number): string => {
    if (probability >= 0.7) return "bg-green-100";
    if (probability >= 0.4) return "bg-yellow-100";
    return "bg-red-100";
  };
  \<close>
\<close>

definition getProbabilityColor :: "number \<Rightarrow> string" where
  "getProbabilityColor probability =
     (if num_ge probability double_0_7 then ''text-green-600''
      else if num_ge probability double_0_4 then ''text-yellow-600''
      else ''text-red-600'')"

definition getProbabilityBgColor :: "number \<Rightarrow> string" where
  "getProbabilityBgColor probability =
     (if num_ge probability double_0_7 then ''bg-green-100''
      else if num_ge probability double_0_4 then ''bg-yellow-100''
      else ''bg-red-100'')"

subsection \<open>Example data\<close>




section \<open>The analysis engine, from its specification\<close>

text \<open>
  The page posts to \<open>/api/v1/slots/analyze/{storeId}\<close> and shows what comes back; the
  engine that computes the answer runs on the server and is not among the source files.
  The two rankings the page displays, the high performers and the recommended machines,
  are written down here from the specification of the engine.
\<close>

subsection \<open>Feature vectors\<close>

text \<open>
  Modelled from the spec: the Feature Extractor's output type (section 3,
  FeatureVector), whose code is not among the source files. Per machine: the machine
  number, the observation window (first and last day), game count, net difference,
  bonus rate and the positive indicator. The feature matrix of a store is a list of
  them.
\<close>

record FeatureVector =
  machine :: nat
  window :: "nat \<times> nat"
  game_count :: nat
  net_difference :: int
  bonus_rate :: real
  positive :: bool

subsection \<open>Statistical Analyzer: top performers\<close>

text \<open>
  Modelled from the spec: the Statistical Analyzer's ranking (sections 3 and 4.2), whose
  code is not among the source files. \<open>Top performers = the top 5 machines by net
  difference descending; tie-break by ascending machine number\<close>, and in the data
  model \<open>ties broken by lower machine number, then higher game count\<close>. The sort key
  of a machine is the triple of its negated net difference, its machine number and its
  negated game count, compared lexicographically.
\<close>

definition performance_key :: "FeatureVector \<Rightarrow> int \<times> nat \<times> int" where
  "performance_key v = (- net_difference v, machine v, - int (game_count v))"

text \<open>
  Modelled from the spec: the Statistical Analyzer's top-performer list (section 4.2),
  whose code is not among the source files: the first five of the matrix sorted by
  that key.
\<close>

definition top_performers :: "FeatureVector list \<Rightarrow> FeatureVector list" where
  "top_performers matrix = take 5 (sort_key performance_key matrix)"

subsection \<open>Score Combiner: recommended machines\<close>

text \<open>
  Modelled from the spec: the per-machine relevance of the Score Combiner (section
  4.4), whose code is not among the source files: \<open>model relevance score, or, if
  unavailable, net difference\<close>. The model's scores are a partial map from machine
  numbers; a machine without a score counts with its net difference.
\<close>

definition relevance :: "(nat \<rightharpoonup> real) \<Rightarrow> FeatureVector \<Rightarrow> real" where
  "relevance scores v =
     (case scores (machine v) of
        Some r \<Rightarrow> r
      | None \<Rightarrow> real_of_int (net_difference v))"

text \<open>
  Modelled from the spec: the order of the recommendation (section 4.4), whose code is
  not among the source files: \<open>sorted descending by relevance, ties broken by
  ascending machine number\<close>.
\<close>

definition recommendation_key :: "(nat \<rightharpoonup> real) \<Rightarrow> FeatureVector \<Rightarrow> real \<times> nat" where
  "recommendation_key scores v = (- relevance scores v, machine v)"

text \<open>
  Modelled from the spec: the Score Combiner's selection (section 4.4), whose code is
  not among the source files: the machines whose relevance is above the minimum
  threshold, sorted by the key above, capped at 5.
\<close>

definition recommended_vectors ::
  "(nat \<rightharpoonup> real) \<Rightarrow> real \<Rightarrow> FeatureVector list \<Rightarrow> FeatureVector list" where
  "recommended_vectors scores threshold matrix =
     take 5 (sort_key (recommendation_key scores)
               (filter (\<lambda>v. threshold < relevance scores v) matrix))"

text \<open>
  Modelled from the spec: the recommended-machine list of a Prediction (sections 3 and
  4.4), whose code is not among the source files: the machine numbers of the selected
  vectors, in their order. The feature matrix holds one vector per machine (section 3),
  which is what keeps the list free of duplicates; no step of its own removes them.
\<close>

definition recommend :: "(nat \<rightharpoonup> real) \<Rightarrow> real \<Rightarrow> FeatureVector list \<Rightarrow> nat list" where
  "recommend scores threshold matrix =
     map machine (recommended_vectors scores threshold matrix)"

subsection \<open>Example matrix\<close>

definition observed :: "nat \<Rightarrow> int \<Rightarrow> FeatureVector" where
  "observed m d =
     \<lparr>machine = m, window = (0, 6), game_count = 3000, net_difference = d,
      bonus_rate = 0.004, positive = (0 < d)\<rparr>"

definition example_matrix :: "FeatureVector list" where
  "example_matrix =
     [observed 3 100, observed 14 890, observed 2 100, observed 7 (- 50),
      observed 9 0, observed 1 100, observed 5 300, observed 8 10]"

definition example_scores :: "nat \<rightharpoonup> real" where
  "example_scores =
     [3 \<mapsto> 0.5, 14 \<mapsto> 0.9, 2 \<mapsto> 0.5, 7 \<mapsto> 0.1, 9 \<mapsto> 0.3, 1 \<mapsto> 0.5, 5 \<mapsto> 0.7, 8 \<mapsto> 0.3]"

section \<open>Properties of the analysis page\<close>

subsection \<open>The declared fields of \<open>AnalysisResult\<close>\<close>

text \<open>
  Claim C1, as stated: the \<open>AnalysisResult\<close> type declares precisely the contract
  fields (probability, confidence score, recommended machines, the statistical summary
  with its four entries, total machine count). It does not: \<open>store_name\<close> is declared
  and is no contract field, so the two sets of fields differ.
\<close>

theorem AnalysisResult_not_only_contract:
  "([''store_name''], TString) \<in> set (declared_fields AnalysisResult_interface) \<and>
   ([''store_name''], TString) \<notin> set contract_fields \<and>
   set (declared_fields AnalysisResult_interface) \<noteq> set contract_fields"
proof -
  have declared: "([''store_name''], TString) \<in> set (declared_fields AnalysisResult_interface)"
    by (simp add: AnalysisResult_interface_def)
  have absent: "([''store_name''], TString) \<notin> set contract_fields"
    by (simp add: contract_fields_def)
  from declared absent
  have "set (declared_fields AnalysisResult_interface) \<noteq> set contract_fields"
    by blast
  with declared absent show ?thesis by simp
qed

text \<open>
  Claim C1, amended: the \<open>AnalysisResult\<close> type declares every contract field, with the
  statistical summary and the total machine count nested under \<open>analysis_details\<close>,
  and exactly two fields more, neither of them a contract field: \<open>store_name\<close> before
  them and \<open>analysis_details.analysis_date\<close> after them.
\<close>

theorem AnalysisResult_declares_contract:
  "declared_fields AnalysisResult_interface =
     ([''store_name''], TString) # contract_fields @
     [([''analysis_details'', ''analysis_date''], TString)] \<and>
   ([''store_name''], TString) \<notin> set contract_fields \<and>
   ([''analysis_details'', ''analysis_date''], TString) \<notin> set contract_fields"
  by (simp add: AnalysisResult_interface_def contract_fields_def HighPerformer_interface_def)

subsection \<open>The colour bands\<close>

text \<open>
  The two thresholds are the doubles nearest to 7/10 and 4/10: each has a significand
  of 53 bits and lies less than half a unit in the last place from the decimal.
\<close>

lemma double_0_7_nearest:
  "double_0_7 = 6305039478318694 / 2 ^ 53 \<and>
   (2::nat) ^ 52 \<le> 6305039478318694 \<and> (6305039478318694::nat) < 2 ^ 53 \<and>
   double_0_7 < 0.7 \<and> 0.7 - double_0_7 < 1 / 2 ^ 54"
  by (simp add: double_0_7_def)

lemma double_0_4_nearest:
  "double_0_4 = 7205759403792794 / 2 ^ 54 \<and>
   (2::nat) ^ 52 \<le> 7205759403792794 \<and> (7205759403792794::nat) < 2 ^ 53 \<and>
   0.4 < double_0_4 \<and> double_0_4 - 0.4 < 1 / 2 ^ 55"
  by (simp add: double_0_4_def)

text \<open>A double of at least 1/4 is a multiple of \<open>2 ^ -54\<close>.\<close>

lemma double_grid:
  assumes "is_double x" and "1 / 4 \<le> x"
  shows "\<exists>k :: int. x = real_of_int k / 2 ^ 54"
proof -
  from assms(1) obtain m e :: int
    where x: "x = real_of_int m * 2 powi e" and m: "\<bar>m\<bar> < 2 ^ 53"
    by (auto simp add: is_double_def)
  have "- 54 \<le> e"
  proof (rule ccontr)
    assume "\<not> - 54 \<le> e"
    then have "e \<le> - 55" by simp
    then have "(2::real) powi e \<le> 2 powi (- 55)"
      by (intro power_int_increasing) simp_all
    moreover from m have "m \<le> 2 ^ 53 - 1" by simp
    then have "real_of_int m \<le> real_of_int (2 ^ 53 - 1)" by (simp only: of_int_le_iff)
    then have "real_of_int m \<le> 2 ^ 53 - 1" by simp
    moreover have "0 \<le> (2::real) powi e" by simp
    ultimately have "real_of_int m * 2 powi e \<le> (2 ^ 53 - 1) * 2 powi (- 55)"
      by (intro mult_mono) simp_all
    also have "\<dots> < (1 / 4 :: real)" by (simp add: power_int_minus)
    finally show False using x assms(2) by simp
  qed
  then have "0 \<le> e + 54" by simp
  then obtain n :: nat where "e + 54 = int n"
    using nonneg_int_cases by blast
  then have e: "e = int n - 54" by simp
  have "(2::real) powi e = 2 ^ n / 2 ^ 54"
    unfolding e by (simp add: power_int_diff)
  with x have "x = real_of_int (m * 2 ^ n) / 2 ^ 54"
    by simp
  then show ?thesis ..
qed

text \<open>
  Between 4/10 and the double of \<open>0.4\<close> lies no multiple of \<open>2 ^ -54\<close>; between the
  double of \<open>0.7\<close> and 7/10 lies that double alone.
\<close>

lemma double_0_4_on_grid:
  "(double_0_4 \<le> real_of_int k / 2 ^ 54) = (0.4 \<le> real_of_int k / 2 ^ 54)"
proof -
  have "(double_0_4 \<le> real_of_int k / 2 ^ 54) = (7205759403792794 \<le> k)"
    by (simp add: double_0_4_def field_simps)
  moreover have "(0.4 \<le> real_of_int k / 2 ^ 54) = (7205759403792794 \<le> k)"
  proof -
    have "(0.4 \<le> real_of_int k / 2 ^ 54) =
            (real_of_int 36028797018963968 \<le> real_of_int (5 * k))"
      by (simp add: field_simps)
    also have "\<dots> = (36028797018963968 \<le> 5 * k)"
      by (simp only: of_int_le_iff)
    also have "\<dots> = (7205759403792794 \<le> k)"
      by presburger
    finally show ?thesis .
  qed
  ultimately show ?thesis by simp
qed

lemma double_0_7_on_grid:
  "(double_0_7 \<le> real_of_int k / 2 ^ 54) =
     (0.7 \<le> real_of_int k / 2 ^ 54 \<or> real_of_int k / 2 ^ 54 = double_0_7)"
proof -
  have "(double_0_7 \<le> real_of_int k / 2 ^ 54) = (12610078956637388 \<le> k)"
    by (simp add: double_0_7_def field_simps)
  moreover have "(0.7 \<le> real_of_int k / 2 ^ 54) = (12610078956637389 \<le> k)"
  proof -
    have "(0.7 \<le> real_of_int k / 2 ^ 54) =
            (real_of_int 126100789566373888 \<le> real_of_int (10 * k))"
      by (simp add: field_simps)
    also have "\<dots> = (126100789566373888 \<le> 10 * k)"
      by (simp only: of_int_le_iff)
    also have "\<dots> = (12610078956637389 \<le> k)"
      by presburger
    finally show ?thesis .
  qed
  moreover have "(real_of_int k / 2 ^ 54 = double_0_7) = (k = 12610078956637388)"
    by (simp add: double_0_7_def field_simps)
  ultimately show ?thesis by auto
qed

text \<open>
  So on doubles \<open>>= 0.4\<close> is \<open>\<ge> 4/10\<close>, and \<open>>= 0.7\<close> is \<open>\<ge> 7/10\<close> but for one
  double: the one the literal denotes.
\<close>

lemma double_thresholds:
  assumes "is_double p"
  shows "(double_0_7 \<le> p) = (0.7 \<le> p \<or> p = double_0_7) \<and>
         (double_0_4 \<le> p) = (0.4 \<le> p)"
proof (cases "1 / 4 \<le> p")
  case True
  with assms obtain k :: int where p: "p = real_of_int k / 2 ^ 54"
    using double_grid by blast
  show ?thesis
    unfolding p by (rule conjI [OF double_0_7_on_grid double_0_4_on_grid])
next
  case False
  moreover have "1 / 4 < double_0_4" "1 / 4 < double_0_7"
    by (simp_all add: double_0_7_def double_0_4_def)
  ultimately show ?thesis
    by auto
qed

lemma is_double_examples:
  "is_double 0.75" "is_double 0.5" "is_double 0.25"
  "is_double (3152519739159347 / 2 ^ 52)" "is_double (3602879701896397 / 2 ^ 53)"
proof -
  show "is_double 0.75"
    unfolding is_double_def
    by (rule exI [of _ 3], rule exI [of _ "- 2"]) (simp add: power_int_minus)
  show "is_double 0.5"
    unfolding is_double_def
    by (rule exI [of _ 1], rule exI [of _ "- 1"]) (simp add: power_int_minus)
  show "is_double 0.25"
    unfolding is_double_def
    by (rule exI [of _ 1], rule exI [of _ "- 2"]) (simp add: power_int_minus)
  show "is_double (3152519739159347 / 2 ^ 52)"
    unfolding is_double_def
    by (rule exI [of _ 3152519739159347], rule exI [of _ "- 52"])
       (simp add: power_int_minus)
  show "is_double (3602879701896397 / 2 ^ 53)"
    unfolding is_double_def
    by (rule exI [of _ 3602879701896397], rule exI [of _ "- 53"])
       (simp add: power_int_minus)
qed

text \<open>The bands of the two functions, by the thresholds the code compares with.\<close>

lemma getProbabilityColor_Num:
  "getProbabilityColor (Num p) =
     (if double_0_7 \<le> p then ''text-green-600''
      else if double_0_4 \<le> p then ''text-yellow-600''
      else ''text-red-600'')"
  by (simp add: getProbabilityColor_def)

lemma getProbabilityBgColor_Num:
  "getProbabilityBgColor (Num p) =
     (if double_0_7 \<le> p then ''bg-green-100''
      else if double_0_4 \<le> p then ''bg-yellow-100''
      else ''bg-red-100'')"
  by (simp add: getProbabilityBgColor_def)

lemma probability_colour_thresholds:
  "(getProbabilityColor (Num p) = ''text-green-600'' \<longleftrightarrow> double_0_7 \<le> p) \<and>
   (getProbabilityBgColor (Num p) = ''bg-green-100'' \<longleftrightarrow> double_0_7 \<le> p) \<and>
   (getProbabilityColor (Num p) = ''text-yellow-600'' \<longleftrightarrow> double_0_4 \<le> p \<and> \<not> double_0_7 \<le> p) \<and>
   (getProbabilityBgColor (Num p) = ''bg-yellow-100'' \<longleftrightarrow> double_0_4 \<le> p \<and> \<not> double_0_7 \<le> p) \<and>
   (getProbabilityColor (Num p) = ''text-red-600'' \<longleftrightarrow> \<not> double_0_4 \<le> p) \<and>
   (getProbabilityBgColor (Num p) = ''bg-red-100'' \<longleftrightarrow> \<not> double_0_4 \<le> p)"
proof -
  have "double_0_4 < double_0_7"
    by (simp add: double_0_4_def double_0_7_def)
  then show ?thesis
    by (auto simp add: getProbabilityColor_Num getProbabilityBgColor_Num)
qed

text \<open>
  For every number, NaN and the infinities included, the text colour and the
  background colour are of the same band.
\<close>

lemma probability_colours_same_band:
  "(getProbabilityColor n = ''text-green-600'' \<longleftrightarrow> getProbabilityBgColor n = ''bg-green-100'') \<and>
   (getProbabilityColor n = ''text-yellow-600'' \<longleftrightarrow> getProbabilityBgColor n = ''bg-yellow-100'') \<and>
   (getProbabilityColor n = ''text-red-600'' \<longleftrightarrow> getProbabilityBgColor n = ''bg-red-100'')"
  by (simp add: getProbabilityColor_def getProbabilityBgColor_def)

text \<open>
  Claim C9, as stated: both functions return their green value exactly when
  \<open>p \<ge> 0.7\<close>. They do not: the double that the literal \<open>0.7\<close> denotes (and that a
  JSON body \<open>0.7\<close> parses to) is below 7/10, and for it both return green.
\<close>

theorem probability_green_below_0_7:
  "is_double (3152519739159347 / 2 ^ 52) \<and>
   getProbabilityColor (Num (3152519739159347 / 2 ^ 52)) = ''text-green-600'' \<and>
   getProbabilityBgColor (Num (3152519739159347 / 2 ^ 52)) = ''bg-green-100'' \<and>
   \<not> (0.7 \<le> (3152519739159347 / 2 ^ 52 :: real))"
  using is_double_examples(4)
  by (simp add: getProbabilityColor_def getProbabilityBgColor_def double_0_7_def)

text \<open>
  Claim C9, amended: for every finite double \<open>p\<close>, \<open>getProbabilityColor\<close> and
  \<open>getProbabilityBgColor\<close> both return their green value exactly when \<open>p \<ge> 0.7\<close> or
  \<open>p\<close> is the double nearest 0.7 (3152519739159347 / 2^52, just below 7/10: the value
  of the literal \<open>0.7\<close>), their yellow value exactly when \<open>0.4 \<le> p < 0.7\<close> and \<open>p\<close> is
  not that double, and their red value exactly when \<open>p < 0.4\<close>; so the text colour and
  the background colour of a probability are always of the same band.
\<close>

theorem probability_colour_bands:
  assumes "is_double p"
  shows
    "(getProbabilityColor (Num p) = ''text-green-600'' \<longleftrightarrow> 0.7 \<le> p \<or> p = double_0_7) \<and>
     (getProbabilityBgColor (Num p) = ''bg-green-100'' \<longleftrightarrow> 0.7 \<le> p \<or> p = double_0_7) \<and>
     (getProbabilityColor (Num p) = ''text-yellow-600'' \<longleftrightarrow>
        0.4 \<le> p \<and> p < 0.7 \<and> p \<noteq> double_0_7) \<and>
     (getProbabilityBgColor (Num p) = ''bg-yellow-100'' \<longleftrightarrow>
        0.4 \<le> p \<and> p < 0.7 \<and> p \<noteq> double_0_7) \<and>
     (getProbabilityColor (Num p) = ''text-red-600'' \<longleftrightarrow> p < 0.4) \<and>
     (getProbabilityBgColor (Num p) = ''bg-red-100'' \<longleftrightarrow> p < 0.4)"
proof -
  from double_thresholds [OF assms]
  have green: "(double_0_7 \<le> p) = (0.7 \<le> p \<or> p = double_0_7)"
    and yellow: "(double_0_4 \<le> p) = (0.4 \<le> p)"
    by simp_all
  from probability_colour_thresholds [of p] show ?thesis
    unfolding green yellow by (simp add: not_le)
qed

theorem probability_colour_bands_witness:
  "is_double 0.75 \<and>
   getProbabilityColor (Num 0.75) = ''text-green-600'' \<and>
   getProbabilityBgColor (Num 0.75) = ''bg-green-100'' \<and>
   is_double (3152519739159347 / 2 ^ 52) \<and>
   getProbabilityColor (Num (3152519739159347 / 2 ^ 52)) = ''text-green-600'' \<and>
   getProbabilityBgColor (Num (3152519739159347 / 2 ^ 52)) = ''bg-green-100'' \<and>
   is_double 0.5 \<and>
   getProbabilityColor (Num 0.5) = ''text-yellow-600'' \<and>
   getProbabilityBgColor (Num 0.5) = ''bg-yellow-100'' \<and>
   is_double (3602879701896397 / 2 ^ 53) \<and>
   getProbabilityColor (Num (3602879701896397 / 2 ^ 53)) = ''text-yellow-600'' \<and>
   getProbabilityBgColor (Num (3602879701896397 / 2 ^ 53)) = ''bg-yellow-100'' \<and>
   is_double 0.25 \<and>
   getProbabilityColor (Num 0.25) = ''text-red-600'' \<and>
   getProbabilityBgColor (Num 0.25) = ''bg-red-100''"
  using is_double_examples
    probability_colour_bands [OF is_double_examples(1)]
    probability_colour_bands [OF is_double_examples(4)]
    probability_colour_bands [OF is_double_examples(2)]
    probability_colour_bands [OF is_double_examples(5)]
    probability_colour_bands [OF is_double_examples(3)]
  by (simp add: double_0_7_def)

subsection \<open>\<open>analyzeStore\<close>\<close>








section \<open>Properties of the engine as specified\<close>

subsection \<open>Top performers\<close>

lemma sort_key_performance_ranked:
  "sorted_wrt (\<lambda>a b. net_difference b < net_difference a \<or>
                      (net_difference a = net_difference b \<and> machine a \<le> machine b))
     (sort_key performance_key matrix)"
proof -
  have "sorted (map performance_key (sort_key performance_key matrix))"
    by (rule sorted_sort_key)
  then have "sorted_wrt (\<lambda>a b. performance_key a \<le> performance_key b)
               (sort_key performance_key matrix)"
    by (simp add: sorted_wrt_map)
  then show ?thesis
    by (rule sorted_wrt_mono_rel [rotated])
       (auto simp add: performance_key_def less_eq_prod_def)
qed

text \<open>
  Claim C3: for every feature matrix the top-performer list has at most 5 entries, is
  sorted descending by net difference with ties broken by ascending machine number, and
  a matrix of fewer than 5 machines gives a shorter list (as many entries as it has
  machines), not an error.
\<close>

theorem top_performers_ranked:
  "length (top_performers matrix) \<le> 5 \<and>
   length (top_performers matrix) = min 5 (length matrix) \<and>
   sorted_wrt (\<lambda>a b. net_difference b < net_difference a \<or>
                      (net_difference a = net_difference b \<and> machine a \<le> machine b))
     (top_performers matrix)"
  unfolding top_performers_def
  using sort_key_performance_ranked [of matrix] by (simp add: min.commute)

theorem top_performers_ranked_witness:
  "map machine (top_performers example_matrix) = [14, 5, 1, 2, 3] \<and>
   length (top_performers example_matrix) = min 5 (length example_matrix) \<and>
   sorted_wrt (\<lambda>a b. net_difference b < net_difference a \<or>
                      (net_difference a = net_difference b \<and> machine a \<le> machine b))
     (top_performers example_matrix) \<and>
   map machine (top_performers (take 2 example_matrix)) = [14, 3] \<and>
   top_performers [] = []"
  using top_performers_ranked [of example_matrix]
  by (simp add: top_performers_def performance_key_def example_matrix_def observed_def
      less_eq_prod_def)

text \<open>
  The list is the top of the ranking: no machine left out ranks before a machine in it.
\<close>

lemma top_performers_best:
  assumes "v \<in> set (drop 5 (sort_key performance_key matrix))"
    and "t \<in> set (top_performers matrix)"
  shows "net_difference v < net_difference t \<or>
         (net_difference t = net_difference v \<and> machine t \<le> machine v)"
proof -
  have "sorted_wrt (\<lambda>a b. net_difference b < net_difference a \<or>
                      (net_difference a = net_difference b \<and> machine a \<le> machine b))
     (take 5 (sort_key performance_key matrix) @ drop 5 (sort_key performance_key matrix))"
    using sort_key_performance_ranked [of matrix] by simp
  then show ?thesis
    using assms unfolding sorted_wrt_append top_performers_def by blast
qed

subsection \<open>Recommended machines\<close>

lemma recommendation_strictly_ranked:
  "sorted (map (recommendation_key scores) vs) \<Longrightarrow> distinct (map machine vs) \<Longrightarrow>
   sorted_wrt (\<lambda>a b. relevance scores b < relevance scores a \<or>
                      (relevance scores a = relevance scores b \<and> machine a < machine b)) vs"
proof (induction vs)
  case Nil
  show ?case by simp
next
  case (Cons a vs)
  have "relevance scores b < relevance scores a \<or>
        (relevance scores a = relevance scores b \<and> machine a < machine b)"
    if "b \<in> set vs" for b
  proof -
    from Cons.prems(1) that
    have "recommendation_key scores a \<le> recommendation_key scores b"
      by simp
    moreover from Cons.prems(2) that have "machine a \<noteq> machine b"
      by auto
    ultimately show ?thesis
      by (auto simp add: recommendation_key_def less_eq_prod_def)
  qed
  with Cons show ?case by simp
qed

lemma distinct_recommended_vectors:
  assumes "distinct (map machine matrix)"
  shows "distinct (map machine (recommended_vectors scores threshold matrix))"
proof -
  let ?kept = "filter (\<lambda>v. threshold < relevance scores v) matrix"
  have "distinct (map machine ?kept)"
    using assms by (rule distinct_map_filter)
  then have "distinct (map machine (sort_key (recommendation_key scores) ?kept))"
    by (simp add: distinct_map)
  then have "distinct (take 5 (map machine (sort_key (recommendation_key scores) ?kept)))"
    by (rule distinct_take)
  then show ?thesis
    by (simp add: recommended_vectors_def take_map)
qed

text \<open>
  Claim C4: for every valid input, that is a feature matrix with one vector per machine
  number, the recommended-machine list has no duplicate machine number, has at most 5
  entries, and is sorted descending by relevance with ties broken by ascending machine
  number.
\<close>

theorem recommend_ranked:
  assumes "distinct (map machine matrix)"
  shows "distinct (recommend scores threshold matrix) \<and>
         length (recommend scores threshold matrix) \<le> 5 \<and>
         sorted_wrt (\<lambda>a b. relevance scores b < relevance scores a \<or>
                      (relevance scores a = relevance scores b \<and> machine a < machine b))
           (recommended_vectors scores threshold matrix)"
proof -
  let ?kept = "filter (\<lambda>v. threshold < relevance scores v) matrix"
  have d: "distinct (map machine (recommended_vectors scores threshold matrix))"
    using assms by (rule distinct_recommended_vectors)
  have "sorted (map (recommendation_key scores) (sort_key (recommendation_key scores) ?kept))"
    by (rule sorted_sort_key)
  then have "sorted (take 5 (map (recommendation_key scores)
                              (sort_key (recommendation_key scores) ?kept)))"
    by (rule sorted_wrt_take)
  then have "sorted (map (recommendation_key scores)
                      (recommended_vectors scores threshold matrix))"
    by (simp add: recommended_vectors_def take_map)
  then have "sorted_wrt (\<lambda>a b. relevance scores b < relevance scores a \<or>
                      (relevance scores a = relevance scores b \<and> machine a < machine b))
           (recommended_vectors scores threshold matrix)"
    using d by (rule recommendation_strictly_ranked)
  moreover have "length (recommended_vectors scores threshold matrix) \<le> 5"
    by (simp add: recommended_vectors_def)
  ultimately show ?thesis
    using d by (simp add: recommend_def)
qed

theorem recommend_ranked_witness:
  "distinct (map machine example_matrix) \<and>
   recommend example_scores 0.2 example_matrix = [14, 5, 1, 2, 3] \<and>
   distinct (recommend example_scores 0.2 example_matrix) \<and>
   length (recommend example_scores 0.2 example_matrix) \<le> 5 \<and>
   sorted_wrt (\<lambda>a b. relevance example_scores b < relevance example_scores a \<or>
                (relevance example_scores a = relevance example_scores b \<and>
                 machine a < machine b))
     (recommended_vectors example_scores 0.2 example_matrix) \<and>
   recommend Map.empty 50 example_matrix = [14, 5, 1, 2, 3] \<and>
   recommend Map.empty 200 example_matrix = [14, 5]"
proof -
  have valid: "distinct (map machine example_matrix)"
    by (simp add: example_matrix_def observed_def)
  have "recommend example_scores 0.2 example_matrix = [14, 5, 1, 2, 3]"
    by (simp add: recommend_def recommended_vectors_def recommendation_key_def relevance_def
        example_matrix_def example_scores_def observed_def less_eq_prod_def)
  moreover have "recommend Map.empty 50 example_matrix = [14, 5, 1, 2, 3]"
    by (simp add: recommend_def recommended_vectors_def recommendation_key_def relevance_def
        example_matrix_def observed_def less_eq_prod_def)
  moreover have "recommend Map.empty 200 example_matrix = [14, 5]"
    by (simp add: recommend_def recommended_vectors_def recommendation_key_def relevance_def
        example_matrix_def observed_def less_eq_prod_def)
  ultimately show ?thesis
    using valid recommend_ranked [OF valid, of example_scores "0.2"] by simp
qed

end
